theory Spec2Isabelle
  imports Complex_Main "HOL-Library.Sublist"
begin

section \<open>Skylens API: a shallow embedding of \<^verbatim>\<open>src/api/main.py\<close>\<close>

text \<open>
  The module defines five FastAPI handlers. Two of them carry logic: \<^verbatim>\<open>post_intent\<close>
  (validation and mapping of camera intents) and \<^verbatim>\<open>get_notam_answer\<close> (the NOTAM
  question-answering endpoint, which in this version of the repository returns a fixed
  demo response; the retrieval and generation services are not imported). Each handler is
  a HOL function; a raised exception is the \<open>Inl\<close> branch of a sum.
\<close>

subsection \<open>Python values\<close>

text \<open>
  A Python \<^verbatim>\<open>float\<close> is a finite number, an infinity or NaN. The handlers only compare and
  select floats (\<^verbatim>\<open>min\<close>, \<^verbatim>\<open>max\<close>), they never do arithmetic on them, so a finite
  float is carried as the real number it denotes and no rounding is involved.
\<close>

datatype pyfloat = Fin real | PInf | NInf | NaN

text \<open>The comparison \<^verbatim>\<open>a < b\<close> on floats: every comparison with NaN is false.\<close>

fun py_lt :: "pyfloat \<Rightarrow> pyfloat \<Rightarrow> bool" where
  "py_lt NaN y = False"
| "py_lt x NaN = False"
| "py_lt (Fin a) (Fin b) = (a < b)"
| "py_lt (Fin a) PInf = True"
| "py_lt (Fin a) NInf = False"
| "py_lt PInf y = False"
| "py_lt NInf NInf = False"
| "py_lt NInf y = True"

text \<open>
  The builtins \<^verbatim>\<open>min(a, b)\<close> and \<^verbatim>\<open>max(a, b)\<close> keep the first argument and replace it
  by the second only when the second is strictly smaller (strictly greater).
\<close>

definition py_min :: "pyfloat \<Rightarrow> pyfloat \<Rightarrow> pyfloat" where
  "py_min a b = (if py_lt b a then b else a)"

definition py_max :: "pyfloat \<Rightarrow> pyfloat \<Rightarrow> pyfloat" where
  "py_max a b = (if py_lt a b then b else a)"

text \<open>The values stored in the response dictionaries: \<^verbatim>\<open>None\<close>, a string or a float.\<close>

datatype pyval = PNone | PStr string | PFloat pyfloat

type_synonym pydict = "(string \<times> pyval) list"

definition opt_str :: "string option \<Rightarrow> pyval" where
  "opt_str v = (case v of None \<Rightarrow> PNone | Some s \<Rightarrow> PStr s)"

definition opt_float :: "pyfloat option \<Rightarrow> pyval" where
  "opt_float v = (case v of None \<Rightarrow> PNone | Some x \<Rightarrow> PFloat x)"

text \<open>
  \<^verbatim>\<open>str.upper\<close> and \<^verbatim>\<open>str.lower\<close>, on the ASCII letters (a \<open>char\<close> is a byte; the other
  characters are left as they are).
\<close>

definition upper_char :: "char \<Rightarrow> char" where
  "upper_char c =
     (let n = (of_char c :: nat) in if 97 \<le> n \<and> n \<le> 122 then char_of (n - 32) else c)"

definition lower_char :: "char \<Rightarrow> char" where
  "lower_char c =
     (let n = (of_char c :: nat) in if 65 \<le> n \<and> n \<le> 90 then char_of (n + 32) else c)"

definition upper :: "string \<Rightarrow> string" where
  "upper s = map upper_char s"

definition lower :: "string \<Rightarrow> string" where
  "lower s = map lower_char s"

subsection \<open>Failures\<close>

text \<open>
  A request ends in a response body or in a failure: an \<^verbatim>\<open>HTTPException\<close> raised by a
  handler, with its status code and detail, or the validation error FastAPI raises itself
  when the request does not fit the handler's signature (status 422).
\<close>

datatype failure = HTTPException int string | RequestValidationError

fun status :: "failure \<Rightarrow> int" where
  "status (HTTPException code detail) = code"
| "status RequestValidationError = 422"

subsection \<open>The ambient state\<close>

text \<open>What a handler can read besides its arguments: the clock of \<^verbatim>\<open>datetime.utcnow()\<close>.\<close>

record world =
  utcnow :: string

definition health :: "world \<Rightarrow> pydict" where
  "health w = [(''status'', PStr ''ok''), (''time'', PStr (utcnow w @ ''Z''))]"

subsection \<open>The intent endpoint\<close>

record IntentRequest =
  action :: string
  target :: "string option"
  speed :: "pyfloat option"

record IntentResponse =
  ok :: bool
  action :: string
  mapped :: pydict

definition valid_actions :: "string list" where
  "valid_actions = [''fly_to'', ''orbit'', ''follow'', ''chase'', ''set_layer'']"

text \<open>The detail of the 400 error; it ends with a single quote (character 0x27).\<close>

definition set_layer_detail :: string where
  "set_layer_detail = ''set_layer requires target like 'buildings:on'' @ [CHR 0x27]"

text \<open>
  The target normalisation of \<^verbatim>\<open>post_intent\<close>: \<^verbatim>\<open>fly_to\<close> and \<^verbatim>\<open>orbit\<close> replace every
  target that is not a spelling of EGLL by \<^verbatim>\<open>"EGLL"\<close>; \<^verbatim>\<open>set_layer\<close> raises 400 unless the
  target starts with \<^verbatim>\<open>"buildings:"\<close>, and lowercases it; the other actions keep the target.
  \<^verbatim>\<open>not request.target\<close> is true for \<^verbatim>\<open>None\<close> and for the empty string.
\<close>

definition map_target :: "IntentRequest \<Rightarrow> failure + string option" where
  "map_target request =
     (if IntentRequest.action request \<in> set [''fly_to'', ''orbit''] then
        (case target request of
           None \<Rightarrow> Inr (Some ''EGLL'')
         | Some t \<Rightarrow> if t = [] \<or> upper t \<noteq> ''EGLL'' then Inr (Some ''EGLL'') else Inr (Some t))
      else if IntentRequest.action request = ''set_layer'' then
        (case target request of
           None \<Rightarrow> Inl (HTTPException 400 set_layer_detail)
         | Some t \<Rightarrow>
             if t = [] \<or> \<not> prefix ''buildings:'' t
             then Inl (HTTPException 400 set_layer_detail)
             else Inr (Some (lower t)))
      else Inr (target request))"

text \<open>The speed clamp: \<^verbatim>\<open>max(0.0, min(1000.0, float(request.speed)))\<close>, or \<^verbatim>\<open>None\<close>.\<close>

definition map_speed :: "IntentRequest \<Rightarrow> pyfloat option" where
  "map_speed request =
     (case speed request of
        None \<Rightarrow> None
      | Some s \<Rightarrow> Some (py_max (Fin 0) (py_min (Fin 1000) s)))"

text \<open>The body of the \<^verbatim>\<open>try\<close> block.\<close>

definition post_intent_body :: "IntentRequest \<Rightarrow> failure + IntentResponse" where
  "post_intent_body request =
     (if IntentRequest.action request \<notin> set valid_actions then
        Inl (HTTPException 422 (''Invalid action: '' @ IntentRequest.action request))
      else
        (case map_target request of
           Inl e \<Rightarrow> Inl e
         | Inr mapped_target \<Rightarrow>
             Inr \<lparr>ok = True, action = IntentRequest.action request,
                  mapped = [(''target'', opt_str mapped_target),
                            (''speed'', opt_float (map_speed request))]\<rparr>))"

text \<open>
  The handler: \<^verbatim>\<open>except Exception\<close> catches whatever the body raised, the
  \<^verbatim>\<open>HTTPException\<close>s included, and raises a 500 in its place.
\<close>

definition post_intent :: "IntentRequest \<Rightarrow> failure + IntentResponse" where
  "post_intent request =
     (case post_intent_body request of
        Inl e \<Rightarrow> Inl (HTTPException 500 ''Intent processing failed'')
      | Inr response \<Rightarrow> Inr response)"

subsection \<open>The NOTAM endpoint\<close>

record NotamAnswer =
  answer :: string
  citations :: "string list"
  matches :: "pydict list"
  provider :: string

text \<open>
  The handler ignores its three arguments and the ambient state and returns the demo
  response; it has no \<^verbatim>\<open>raise\<close>.
\<close>

definition get_notam_answer :: "world \<Rightarrow> string \<Rightarrow> string \<Rightarrow> int \<Rightarrow> failure + NotamAnswer" where
  "get_notam_answer w q icao k =
     Inr \<lparr>answer = ''Demo response: No active runway closures reported for London Heathrow at this time. Standard operations are in effect.'',
          citations = [''EGLL-2025-001''],
          matches = [[(''id'', PStr ''EGLL-2025-001''),
                      (''icao'', PStr ''EGLL''),
                      (''text'', PStr ''Demo NOTAM: Standard runway operations in effect''),
                      (''score'', PFloat (Fin (85 / 100)))]],
          provider = ''demo''\<rparr>"

text \<open>
  The signature \<^verbatim>\<open>(q: str, icao: str = "EGLL", k: int = 5)\<close> is what FastAPI binds the
  query string to. A string parameter is absent or present; the text given for \<^verbatim>\<open>k\<close> is
  absent, or it is the text of an integer, or it is not. A missing \<^verbatim>\<open>q\<close> and a \<^verbatim>\<open>k\<close> that
  is not an integer are validation errors; the signature puts no bound on \<^verbatim>\<open>k\<close>.
\<close>

datatype int_param = NotAnInt | IsInt int

record NotamQuery =
  query_q :: "string option"
  query_icao :: "string option"
  query_k :: "int_param option"

definition bind_notam_query :: "NotamQuery \<Rightarrow> failure + (string \<times> string \<times> int)" where
  "bind_notam_query r =
     (case query_q r of
        None \<Rightarrow> Inl RequestValidationError
      | Some qv \<Rightarrow>
          (case query_k r of
             Some NotAnInt \<Rightarrow> Inl RequestValidationError
           | Some (IsInt n) \<Rightarrow>
               Inr (qv, (case query_icao r of None \<Rightarrow> ''EGLL'' | Some i \<Rightarrow> i), n)
           | None \<Rightarrow>
               Inr (qv, (case query_icao r of None \<Rightarrow> ''EGLL'' | Some i \<Rightarrow> i), 5)))"

definition notam_route :: "world \<Rightarrow> NotamQuery \<Rightarrow> failure + NotamAnswer" where
  "notam_route w r =
     (case bind_notam_query r of
        Inl e \<Rightarrow> Inl e
      | Inr (qv, iv, kv) \<Rightarrow> get_notam_answer w qv iv kv)"

section \<open>Properties\<close>

subsection \<open>Auxiliary facts\<close>



subsection \<open>The NOTAM endpoint\<close>

text \<open>
  Claim C1. For every question text, airport code and result count the handler returns
  an answer record (answer, citations, matches, provider) and raises nothing; so does the
  route for every request that carries a question and whose \<^verbatim>\<open>k\<close>, when given, is an integer.
\<close>

theorem notam_always_answers:
  "(\<exists>a. get_notam_answer w qv iv kv = Inr a) \<and>
   (\<forall>e. get_notam_answer w qv iv kv \<noteq> Inl e) \<and>
   (\<exists>a. notam_route w \<lparr>query_q = Some qv, query_icao = io, query_k = map_option IsInt ko\<rparr> = Inr a)"
  by (cases ko) (simp_all add: get_notam_answer_def notam_route_def bind_notam_query_def)

text \<open>
  Claim C2. Every identifier in the citations list of a returned answer is the
  \<^verbatim>\<open>id\<close> of some element of its matches list.
\<close>

theorem notam_citations_in_matches:
  assumes "get_notam_answer w qv iv kv = Inr a"
  shows "\<forall>c \<in> set (citations a). \<exists>m \<in> set (matches a). map_of m ''id'' = Some (PStr c)"
  using assms by (auto simp: get_notam_answer_def)

theorem notam_citations_in_matches_witness:
  "citations (projr (get_notam_answer \<lparr>utcnow = ''2025-08-13T09:20:00''\<rparr> ''Any runway closures?'' ''EGLL'' 5)) = [''EGLL-2025-001'']
   \<and> (\<exists>m. m \<in> set (matches (projr (get_notam_answer \<lparr>utcnow = ''2025-08-13T09:20:00''\<rparr> ''Any runway closures?'' ''EGLL'' 5)))
          \<and> map_of m ''id'' = Some (PStr ''EGLL-2025-001''))"
proof -
  let ?r = "get_notam_answer \<lparr>utcnow = ''2025-08-13T09:20:00''\<rparr> ''Any runway closures?'' ''EGLL'' 5"
  have r: "?r = Inr (projr ?r)" by (simp add: get_notam_answer_def)
  have c: "citations (projr ?r) = [''EGLL-2025-001'']" by (simp add: get_notam_answer_def)
  from notam_citations_in_matches [OF r] c show ?thesis by (simp add: Bex_def)
qed

text \<open>
  Claim C3 says that the airport code ZZZZ yields an empty match sequence and an answer
  stating that no relevant notices were found. The handler does not look at the airport
  code: at ZZZZ the match sequence is not empty and the answer is the demo text.
\<close>

theorem notam_zzzz_counterexample:
  "matches (projr (get_notam_answer \<lparr>utcnow = ''2025-08-13T09:20:00''\<rparr> ''Any runway closures?'' ''ZZZZ'' 5)) \<noteq> []
   \<and> answer (projr (get_notam_answer \<lparr>utcnow = ''2025-08-13T09:20:00''\<rparr> ''Any runway closures?'' ''ZZZZ'' 5)) =
      ''Demo response: No active runway closures reported for London Heathrow at this time. Standard operations are in effect.''"
  by (simp add: get_notam_answer_def)

text \<open>
  Claim C3, amended. For the airport code ZZZZ and any question no exception is
  propagated, and the handler returns the same fixed demo answer as for EGLL: one match
  (EGLL-2025-001), that identifier as the only citation, the demo answer text and the
  provider tag \<^verbatim>\<open>demo\<close>.
\<close>

theorem notam_zzzz_demo:
  "get_notam_answer w qv ''ZZZZ'' kv = get_notam_answer w qv ''EGLL'' kv \<and>
   (\<exists>a. get_notam_answer w qv ''ZZZZ'' kv = Inr a \<and>
      map (\<lambda>m. map_of m ''id'') (matches a) = [Some (PStr ''EGLL-2025-001'')] \<and>
      citations a = [''EGLL-2025-001''] \<and>
      answer a = ''Demo response: No active runway closures reported for London Heathrow at this time. Standard operations are in effect.'' \<and>
      provider a = ''demo'')"
  by (simp add: get_notam_answer_def)




text \<open>
  Claim C5. The endpoint is deterministic: its result is a function of the question, the
  airport code and \<^verbatim>\<open>k\<close> alone. Two invocations on the same input, in any two states of
  the world, give the same result: the same answer text, the same citations in the same
  order and the same matches in the same order.
\<close>

theorem notam_deterministic:
  "get_notam_answer w qv iv kv = get_notam_answer w' qv iv kv \<and>
   map_sum id answer (get_notam_answer w qv iv kv) = map_sum id answer (get_notam_answer w' qv iv kv) \<and>
   map_sum id citations (get_notam_answer w qv iv kv) = map_sum id citations (get_notam_answer w' qv iv kv) \<and>
   map_sum id matches (get_notam_answer w qv iv kv) = map_sum id matches (get_notam_answer w' qv iv kv) \<and>
   notam_route w r = notam_route w' r"
  by (simp add: get_notam_answer_def notam_route_def split: sum.splits)

text \<open>
  Claim C6. The provider field of every response is one of \<^verbatim>\<open>local\<close>, \<^verbatim>\<open>azure\<close>,
  \<^verbatim>\<open>local-fallback\<close> and \<^verbatim>\<open>demo\<close>.
\<close>

theorem notam_provider_tag:
  assumes "get_notam_answer w qv iv kv = Inr a"
  shows "provider a \<in> {''local'', ''azure'', ''local-fallback'', ''demo''}"
  using assms by (auto simp: get_notam_answer_def)

theorem notam_provider_tag_witness:
  "provider (projr (get_notam_answer \<lparr>utcnow = ''2025-08-13T09:20:00''\<rparr> ''Is 27L open?'' ''EGLL'' 5))
     \<in> {''local'', ''azure'', ''local-fallback'', ''demo''}"
proof -
  let ?r = "get_notam_answer \<lparr>utcnow = ''2025-08-13T09:20:00''\<rparr> ''Is 27L open?'' ''EGLL'' 5"
  have r: "?r = Inr (projr ?r)" by (simp add: get_notam_answer_def)
  show ?thesis by (rule notam_provider_tag [OF r])
qed

text \<open>
  Claim C7. An omitted airport code is bound to \<^verbatim>\<open>EGLL\<close>, an omitted \<^verbatim>\<open>k\<close> to 5, and
  a request without a question is refused.
\<close>

theorem notam_query_defaults:
  "bind_notam_query \<lparr>query_q = Some qv, query_icao = None, query_k = Some (IsInt n)\<rparr> = Inr (qv, ''EGLL'', n) \<and>
   bind_notam_query \<lparr>query_q = Some qv, query_icao = Some iv, query_k = None\<rparr> = Inr (qv, iv, 5) \<and>
   bind_notam_query \<lparr>query_q = Some qv, query_icao = None, query_k = None\<rparr> = Inr (qv, ''EGLL'', 5) \<and>
   bind_notam_query \<lparr>query_q = None, query_icao = io, query_k = ko\<rparr> = Inl RequestValidationError \<and>
   notam_route w \<lparr>query_q = Some qv, query_icao = None, query_k = None\<rparr> = get_notam_answer w qv ''EGLL'' 5 \<and>
   notam_route w \<lparr>query_q = None, query_icao = io, query_k = ko\<rparr> = Inl RequestValidationError"
  by (simp add: bind_notam_query_def notam_route_def)




subsection \<open>The intent endpoint\<close>

text \<open>
  Claim C9. Whatever error the body of the handler raises, the caller sees status 500.
  In particular an action outside the five valid ones raises 422 inside the handler, and a
  \<^verbatim>\<open>set_layer\<close> request whose target does not start with \<^verbatim>\<open>buildings:\<close> raises 400
  inside the handler; both are caught by the handler's own \<^verbatim>\<open>except Exception\<close> and
  replaced by a 500.
\<close>

theorem intent_errors_surface_as_500:
  "(\<forall>e. post_intent_body req = Inl e \<longrightarrow>
        post_intent req = Inl (HTTPException 500 ''Intent processing failed'')) \<and>
   (\<forall>e. post_intent req = Inl e \<longrightarrow> status e = 500) \<and>
   (IntentRequest.action req \<notin> set [''fly_to'', ''orbit'', ''follow'', ''chase'', ''set_layer''] \<longrightarrow>
        post_intent_body req = Inl (HTTPException 422 (''Invalid action: '' @ IntentRequest.action req)) \<and>
        post_intent req = Inl (HTTPException 500 ''Intent processing failed'')) \<and>
   (IntentRequest.action req = ''set_layer'' \<and> \<not> (\<exists>t. target req = Some t \<and> prefix ''buildings:'' t) \<longrightarrow>
        post_intent_body req = Inl (HTTPException 400 set_layer_detail) \<and>
        post_intent req = Inl (HTTPException 500 ''Intent processing failed''))"
proof (intro conjI allI impI)
  fix e assume "post_intent_body req = Inl e"
  then show "post_intent req = Inl (HTTPException 500 ''Intent processing failed'')"
    by (simp add: post_intent_def)
next
  fix e assume "post_intent req = Inl e"
  then show "status e = 500"
    by (auto simp: post_intent_def split: sum.splits)
next
  assume a: "IntentRequest.action req \<notin> set [''fly_to'', ''orbit'', ''follow'', ''chase'', ''set_layer'']"
  then show b: "post_intent_body req = Inl (HTTPException 422 (''Invalid action: '' @ IntentRequest.action req))"
    by (simp add: post_intent_body_def valid_actions_def)
  then show "post_intent req = Inl (HTTPException 500 ''Intent processing failed'')"
    by (simp add: post_intent_def)
next
  assume a: "IntentRequest.action req = ''set_layer'' \<and> \<not> (\<exists>t. target req = Some t \<and> prefix ''buildings:'' t)"
  then have "map_target req = Inl (HTTPException 400 set_layer_detail)"
    by (auto simp: map_target_def split: option.splits)
  with a show b: "post_intent_body req = Inl (HTTPException 400 set_layer_detail)"
    by (simp add: post_intent_body_def valid_actions_def)
  then show "post_intent req = Inl (HTTPException 500 ''Intent processing failed'')"
    by (simp add: post_intent_def)
qed

theorem intent_errors_surface_as_500_witness:
  "post_intent_body \<lparr>IntentRequest.action = ''land'', target = Some ''EGLL'', speed = None\<rparr>
      = Inl (HTTPException 422 ''Invalid action: land'') \<and>
   post_intent \<lparr>IntentRequest.action = ''land'', target = Some ''EGLL'', speed = None\<rparr>
      = Inl (HTTPException 500 ''Intent processing failed'') \<and>
   status (projl (post_intent \<lparr>IntentRequest.action = ''land'', target = Some ''EGLL'', speed = None\<rparr>)) = 500 \<and>
   post_intent_body \<lparr>IntentRequest.action = ''set_layer'', target = Some ''terrain:on'', speed = None\<rparr>
      = Inl (HTTPException 400 set_layer_detail) \<and>
   post_intent \<lparr>IntentRequest.action = ''set_layer'', target = Some ''terrain:on'', speed = None\<rparr>
      = Inl (HTTPException 500 ''Intent processing failed'')"
proof -
  let ?land = "\<lparr>IntentRequest.action = ''land'', target = Some ''EGLL'', speed = None\<rparr>"
  let ?layer = "\<lparr>IntentRequest.action = ''set_layer'', target = Some ''terrain:on'', speed = None\<rparr>"
  have h1: "IntentRequest.action ?land \<notin> set [''fly_to'', ''orbit'', ''follow'', ''chase'', ''set_layer'']"
    by simp
  have h2: "IntentRequest.action ?layer = ''set_layer'' \<and> \<not> (\<exists>t. target ?layer = Some t \<and> prefix ''buildings:'' t)"
    by simp
  from intent_errors_surface_as_500 [of ?land] h1
  have 1: "post_intent_body ?land = Inl (HTTPException 422 ''Invalid action: land'')"
    and 2: "post_intent ?land = Inl (HTTPException 500 ''Intent processing failed'')"
    by simp_all
  from intent_errors_surface_as_500 [of ?land] 2
  have 3: "status (projl (post_intent ?land)) = 500" by simp
  from intent_errors_surface_as_500 [of ?layer] h2
  have 4: "post_intent_body ?layer = Inl (HTTPException 400 set_layer_detail)"
    and 5: "post_intent ?layer = Inl (HTTPException 500 ''Intent processing failed'')"
    by blast+
  from 1 2 3 4 5 show ?thesis by blast
qed



end
